theory Spec2Isabelle
  imports Complex_Main
begin

chapter \<open>Strategy execution and reinforcement-learning engine: embedding\<close>

text \<open>
  The development follows the sources: the Python wrapper that the worker script of
  \<^verbatim>\<open>services/pythonEngine.ts\<close> runs inside Pyodide (StrategyContext, the DQN agent, the
  replay of candles through user code), the TypeScript worker and batch dispatcher of the
  same file, and the trade ledger \<^verbatim>\<open>processTradeLogic\<close>.

  Python and JavaScript floating-point numbers are idealised: a finite value is a
  \<^typ>\<open>real\<close>, so rounding is not modelled. Where the code can produce or meet a value
  that is not finite (\<^verbatim>\<open>NaN\<close>, \<^verbatim>\<open>Infinity\<close>), the value type says so
  explicitly.
\<close>

section \<open>StrategyContext.sma\<close>

text \<open>
  \<^verbatim>\<open>
  def sma(self, data, period):
      if len(data) < period:
          return [data[-1]] * len(data)
      ret = []
      curr = sum(data[:period]) / period
      ret = [curr] * (period - 1)
      ret.append(curr)
      window_sum = sum(data[:period])
      for i in range(period, len(data)):
          window_sum = window_sum - data[i-period] + data[i]
          ret.append(window_sum / period)
      return ret
  \<close>
  \<open>period\<close> is a Python integer and may be zero or negative; list indexing and slicing
  follow Python (negative indices count from the end, an index out of range raises, a
  slice never raises).
\<close>

datatype sma_exc = ZeroDivisionError | IndexError

definition py_index :: "'a list \<Rightarrow> int \<Rightarrow> sma_exc + 'a" where
  \<comment> \<open>\<^verbatim>\<open>xs[i]\<close>\<close>
  "py_index xs i =
     (if 0 \<le> i \<and> i < int (length xs) then Inr (xs ! nat i)
      else if i < 0 \<and> - int (length xs) \<le> i then Inr (xs ! nat (int (length xs) + i))
      else Inl IndexError)"

definition py_prefix :: "'a list \<Rightarrow> int \<Rightarrow> 'a list" where
  \<comment> \<open>\<^verbatim>\<open>xs[:p]\<close>\<close>
  "py_prefix xs p = (if 0 \<le> p then take (nat p) xs else take (nat (int (length xs) + p)) xs)"

fun sma_loop :: "real list \<Rightarrow> int \<Rightarrow> int list \<Rightarrow> real \<Rightarrow> real list \<Rightarrow> sma_exc + real list" where
  "sma_loop data period [] window_sum ret = Inr ret"
| "sma_loop data period (i # is) window_sum ret =
     (case py_index data (i - period) of
        Inl e \<Rightarrow> Inl e
      | Inr old \<Rightarrow>
          (case py_index data i of
             Inl e \<Rightarrow> Inl e
           | Inr new \<Rightarrow>
               (let window_sum' = window_sum - old + new
                in sma_loop data period is window_sum' (ret @ [window_sum' / real_of_int period]))))"

definition sma :: "real list \<Rightarrow> int \<Rightarrow> sma_exc + real list" where
  "sma data period =
     (if int (length data) < period then
        (case py_index data (- 1) of
           Inl e \<Rightarrow> Inl e
         | Inr l \<Rightarrow> Inr (replicate (length data) l))
      else if period = 0 then Inl ZeroDivisionError
      else
        (let curr = sum_list (py_prefix data period) / real_of_int period;
             ret = replicate (nat (period - 1)) curr @ [curr];
             window_sum = sum_list (py_prefix data period)
         in sma_loop data period [period..int (length data) - 1] window_sum ret))"

text \<open>The mean of the window of \<open>p\<close> values that starts at position \<open>k\<close>.\<close>

definition window_mean :: "real list \<Rightarrow> nat \<Rightarrow> nat \<Rightarrow> real" where
  "window_mean data p k = sum_list (take p (drop k data)) / real p"

section \<open>The trade ledger: processTradeLogic\<close>

text \<open>
  All arguments of \<^verbatim>\<open>processTradeLogic\<close> are JavaScript numbers. With finite arguments the
  only operation of the function that can leave the finite numbers is the division
  \<^verbatim>\<open>totalValue / totalSize\<close>, which gives \<^verbatim>\<open>NaN\<close> or an infinity when \<^verbatim>\<open>totalSize\<close> is
  zero; the result is stored in \<^verbatim>\<open>avgPrice\<close> and flows from there into later sums,
  products and profits. Sums, differences and products with an operand that is not
  finite are not finite, and so is the quotient of such a value by a finite number, so
  one value \<open>NonFinite\<close> stands for \<^verbatim>\<open>NaN\<close> and both infinities. Sizes and prices given by the
  caller are finite.
\<close>

datatype jsnum = Fin real | NonFinite








datatype side = BUY | SELL

record position =
  pos_size :: real
  avgPrice :: jsnum

record Trade =
  trade_id :: string
  symbol :: string
  trade_side :: side
  price :: real
  trade_size :: real
  trade_time :: string
  status :: string
  pnl :: jsnum
  positionAfter :: real
  trade_note :: "string option"












section \<open>The DQN agent\<close>

subsection \<open>MicroModel: a two-layer network on NumPy arrays\<close>

text \<open>
  A two-dimensional array is the list of its rows. NumPy raises when the shapes of the
  operands do not fit; the functions below compute on arrays whose shapes fit, and
  \<open>replay\<close> checks the shapes before it calls them.
\<close>

type_synonym matrix = "real list list"

definition ncols :: "matrix \<Rightarrow> nat" where
  "ncols M = (case M of [] \<Rightarrow> 0 | r # _ \<Rightarrow> length r)"

definition has_shape :: "nat \<Rightarrow> nat \<Rightarrow> matrix \<Rightarrow> bool" where
  "has_shape r c M \<longleftrightarrow> length M = r \<and> list_all (\<lambda>row. length row = c) M"

definition mat_T :: "matrix \<Rightarrow> matrix" where
  \<comment> \<open>\<^verbatim>\<open>M.T\<close>\<close>
  "mat_T M = map (\<lambda>j. map (\<lambda>row. row ! j) M) [0..<ncols M]"

definition np_dot :: "matrix \<Rightarrow> matrix \<Rightarrow> matrix" where
  "np_dot A B = map (\<lambda>row. map (\<lambda>cl. sum_list (map2 (*) row cl)) (mat_T B)) A"

definition add_bias :: "matrix \<Rightarrow> matrix \<Rightarrow> matrix" where
  \<comment> \<open>\<^verbatim>\<open>Z + b\<close> with \<^verbatim>\<open>b\<close> of shape \<^verbatim>\<open>(1, n)\<close>, broadcast over the rows of \<^verbatim>\<open>Z\<close>\<close>
  "add_bias Z b = map (\<lambda>row. map2 (+) row (concat b)) Z"

definition relu :: "matrix \<Rightarrow> matrix" where
  "relu Z = map (map (max 0)) Z"

definition col_sums :: "matrix \<Rightarrow> matrix" where
  \<comment> \<open>\<^verbatim>\<open>np.sum(M, axis=0, keepdims=True)\<close>\<close>
  "col_sums M = [map sum_list (mat_T M)]"

definition np_clip :: "matrix \<Rightarrow> matrix" where
  \<comment> \<open>\<^verbatim>\<open>np.clip(M, -1.0, 1.0)\<close>\<close>
  "np_clip M = map (map (\<lambda>x. min 1 (max (- 1) x))) M"

definition sgd_step :: "real \<Rightarrow> nat \<Rightarrow> matrix \<Rightarrow> matrix \<Rightarrow> matrix" where
  \<comment> \<open>\<^verbatim>\<open>W -= lr * (dW / m)\<close>\<close>
  "sgd_step rate m W dW = map2 (map2 (\<lambda>w g. w - rate * (g / real m))) W dW"

record fwd_cache =
  cache_X :: matrix
  cache_z1 :: matrix
  cache_a1 :: matrix
  cache_z2 :: matrix

record MicroModel =
  W1 :: matrix
  b1 :: matrix
  W2 :: matrix
  b2 :: matrix
  lr :: real
  cache :: "fwd_cache option"

text \<open>
  \<^verbatim>\<open>__init__\<close> draws the weights with \<^verbatim>\<open>np.random.randn\<close> and scales them; the scaled draws
  are the arguments \<open>w1\<close> and \<open>w2\<close>. The biases are zero and the cache is the empty
  dictionary.
\<close>

definition MicroModel_init :: "matrix \<Rightarrow> matrix \<Rightarrow> nat \<Rightarrow> nat \<Rightarrow> real \<Rightarrow> MicroModel" where
  "MicroModel_init w1 w2 hidden_dim output_dim learning_rate =
     \<lparr>W1 = w1, b1 = [replicate hidden_dim 0], W2 = w2, b2 = [replicate output_dim 0],
      lr = learning_rate, cache = None\<rparr>"

definition forward :: "MicroModel \<Rightarrow> matrix \<Rightarrow> matrix \<times> MicroModel" where
  "forward net X =
     (let z1 = add_bias (np_dot X (W1 net)) (b1 net);
          a1 = relu z1;
          z2 = add_bias (np_dot a1 (W2 net)) (b2 net)
      in (z2, net\<lparr>cache := Some \<lparr>cache_X = X, cache_z1 = z1, cache_a1 = a1, cache_z2 = z2\<rparr>\<rparr>))"

datatype dqn_exc = KeyError | ShapeError | SampleError | BufferIndexError

definition backward :: "MicroModel \<Rightarrow> matrix \<Rightarrow> dqn_exc + MicroModel" where
  "backward net d_loss_output =
     (case cache net of
        None \<Rightarrow> Inl KeyError
      | Some c \<Rightarrow>
          (let m = length d_loss_output;
               dW2 = np_dot (mat_T (cache_a1 c)) d_loss_output;
               db2 = col_sums d_loss_output;
               da1 = np_dot d_loss_output (mat_T (W2 net));
               dz1 = map2 (map2 (\<lambda>g z. if z > 0 then g else 0)) da1 (cache_z1 c);
               dW1 = np_dot (mat_T (cache_X c)) dz1;
               db1 = col_sums dz1;
               dW1c = np_clip dW1;
               dW2c = np_clip dW2
           in Inr (net\<lparr>W1 := sgd_step (lr net) m (W1 net) dW1c,
                        b1 := sgd_step (lr net) m (b1 net) db1,
                        W2 := sgd_step (lr net) m (W2 net) dW2c,
                        b2 := sgd_step (lr net) m (b2 net) db2\<rparr>)))"

subsection \<open>ReplayBuffer\<close>

record transition =
  tr_state :: "real list"
  tr_action :: nat
  tr_reward :: real
  tr_next_state :: "real list"
  tr_done :: bool

record ReplayBuffer =
  capacity :: nat
  buffer :: "transition list"
  position :: nat

definition ReplayBuffer_init :: "nat \<Rightarrow> ReplayBuffer" where
  "ReplayBuffer_init cap = \<lparr>capacity = cap, buffer = [], position = 0\<rparr>"

definition push :: "ReplayBuffer \<Rightarrow> transition \<Rightarrow> dqn_exc + ReplayBuffer" where
  \<comment> \<open>with capacity 0 the store \<^verbatim>\<open>self.buffer[self.position] = ...\<close> raises on the empty list\<close>
  "push rb t =
     (let buf = (if length (buffer rb) < capacity rb then buffer rb @ [t] else buffer rb)
      in if position rb < length buf
         then Inr (rb\<lparr>buffer := buf[position rb := t],
                      position := (position rb + 1) mod capacity rb\<rparr>)
         else Inl BufferIndexError)"

subsection \<open>DQNAgent\<close>

record DQNAgent =
  state_dim :: nat
  action_dim :: nat
  gamma :: real
  epsilon :: real
  epsilon_min :: real
  epsilon_decay :: real
  batch_size :: int
  model :: MicroModel
  memory :: ReplayBuffer

text \<open>
  \<^verbatim>\<open>DQNAgent(state_dim, action_dim=3, hidden_dim=24, lr=0.001, gamma=0.95, epsilon=1.0,
  epsilon_decay=0.995, batch_size=32)\<close>; the defaults are given by the caller here, and
  \<open>w1\<close>, \<open>w2\<close> are the random initial weights.
\<close>

definition DQNAgent_init ::
  "matrix \<Rightarrow> matrix \<Rightarrow> nat \<Rightarrow> nat \<Rightarrow> nat \<Rightarrow> real \<Rightarrow> real \<Rightarrow> real \<Rightarrow> real \<Rightarrow> int \<Rightarrow> DQNAgent" where
  "DQNAgent_init w1 w2 sdim adim hidden_dim rate gam eps eps_decay bsize =
     \<lparr>state_dim = sdim, action_dim = adim, gamma = gam, epsilon = eps, epsilon_min = 1 / 100,
      epsilon_decay = eps_decay, batch_size = bsize,
      model = MicroModel_init w1 w2 hidden_dim adim rate,
      memory = ReplayBuffer_init 5000\<rparr>"

definition remember :: "DQNAgent \<Rightarrow> transition \<Rightarrow> dqn_exc + DQNAgent" where
  "remember ag t =
     (case push (memory ag) t of Inl e \<Rightarrow> Inl e | Inr rb \<Rightarrow> Inr (ag\<lparr>memory := rb\<rparr>))"

definition decay_epsilon :: "DQNAgent \<Rightarrow> DQNAgent" where
  "decay_epsilon ag =
     (if epsilon ag > epsilon_min ag then ag\<lparr>epsilon := epsilon ag * epsilon_decay ag\<rparr> else ag)"

text \<open>
  \<^verbatim>\<open>replay\<close>. The minibatch is drawn by \<^verbatim>\<open>random.sample(self.buffer, self.batch_size)\<close>; the
  draw is the argument \<open>minibatch\<close>, \<open>batch_size\<close> entries of the buffer. The two
  forward passes go through the same network, and the second overwrites the cache that
  \<^verbatim>\<open>backward\<close> reads.
\<close>

definition row_max :: "real list \<Rightarrow> real" where
  \<comment> \<open>\<^verbatim>\<open>np.max\<close> of a row; the rows met here have \<open>action_dim\<close> entries, at least one\<close>
  "row_max r = (case r of [] \<Rightarrow> 0 | x # xs \<Rightarrow> foldl max x xs)"

definition shapes_fit :: "DQNAgent \<Rightarrow> transition list \<Rightarrow> bool" where
  "shapes_fit ag minibatch \<longleftrightarrow>
     (let d = length (W1 (model ag)); h = ncols (W1 (model ag)); k = ncols (W2 (model ag))
      in 0 < d \<and> 0 < h \<and> 0 < k \<and> minibatch \<noteq> [] \<and>
         has_shape d h (W1 (model ag)) \<and> has_shape 1 h (b1 (model ag)) \<and>
         has_shape h k (W2 (model ag)) \<and> has_shape 1 k (b2 (model ag)) \<and>
         list_all (\<lambda>t. length (tr_state t) = d \<and> length (tr_next_state t) = d \<and> tr_action t < k)
           minibatch)"

definition bellman_targets :: "real \<Rightarrow> matrix \<Rightarrow> real list \<Rightarrow> transition list \<Rightarrow> matrix" where
  "bellman_targets gam current_qs max_next_qs minibatch =
     map (\<lambda>(row, mx, t).
            row[tr_action t := (if tr_done t then tr_reward t else tr_reward t + gam * mx)])
         (zip current_qs (zip max_next_qs minibatch))"

definition replay :: "DQNAgent \<Rightarrow> transition list \<Rightarrow> dqn_exc + (real \<times> DQNAgent)" where
  "replay ag minibatch =
     (if int (length (buffer (memory ag))) < batch_size ag then Inr (0, ag)
      else if int (length minibatch) \<noteq> batch_size ag \<or>
              \<not> list_all (\<lambda>t. t \<in> set (buffer (memory ag))) minibatch then Inl SampleError
      else if \<not> shapes_fit ag minibatch then Inl ShapeError
      else
        (let states = map tr_state minibatch;
             next_states = map tr_next_state minibatch;
             (current_qs, net1) = forward (model ag) states;
             (next_qs, net2) = forward net1 next_states;
             max_next_qs = map row_max next_qs;
             target_qs = bellman_targets (gamma ag) current_qs max_next_qs minibatch;
             d_loss = map2 (map2 (-)) current_qs target_qs
         in case backward net2 d_loss of
              Inl e \<Rightarrow> Inl e
            | Inr net3 \<Rightarrow>
                Inr (sum_list (map (\<lambda>x. x * x) (concat d_loss)) / real (length (concat d_loss)),
                     ag\<lparr>model := net3\<rparr>)))"

section \<open>Python values and StrategyContext\<close>

subsection \<open>Values\<close>

text \<open>
  A Python \<^verbatim>\<open>float\<close> (and a JavaScript number) is a finite real or one of \<^verbatim>\<open>nan\<close>,
  \<^verbatim>\<open>inf\<close>, \<^verbatim>\<open>-inf\<close>. The arguments that user code passes to the context are \<^verbatim>\<open>None\<close>, a
  string, a number (\<^verbatim>\<open>int\<close>, \<^verbatim>\<open>float\<close> and the NumPy scalars, which \<^verbatim>\<open>NumpyEncoder\<close> turns
  into these), or \<open>PObj\<close>: an object that \<^verbatim>\<open>float()\<close> rejects and that \<^verbatim>\<open>json.dumps\<close> cannot
  encode.
\<close>

datatype float64 = Finite real | NaN | PosInf | NegInf

datatype pyval = PNone | PStr string | PNum float64 | PObj

fun is_finite :: "float64 \<Rightarrow> bool" where
  "is_finite (Finite x) = True"
| "is_finite _ = False"

fun py_truthy :: "pyval \<Rightarrow> bool" where
  "py_truthy PNone = False"
| "py_truthy (PStr s) = (s \<noteq> [])"
| "py_truthy (PNum (Finite x)) = (x \<noteq> 0)"
| "py_truthy (PNum _) = True"
| "py_truthy PObj = True"

text \<open>
  \<^verbatim>\<open>float(v)\<close>: \<open>None\<close> stands for the exception it raises. What \<^verbatim>\<open>float\<close> makes of
  a string is Python's parser, the argument \<open>parse\<close> (\<^verbatim>\<open>float("nan")\<close> is \<^verbatim>\<open>nan\<close>,
  \<^verbatim>\<open>float("abc")\<close> raises).
\<close>

fun py_float :: "(string \<Rightarrow> float64 option) \<Rightarrow> pyval \<Rightarrow> float64 option" where
  "py_float parse PNone = None"
| "py_float parse (PStr s) = parse s"
| "py_float parse (PNum f) = Some f"
| "py_float parse PObj = None"

text \<open>\<^verbatim>\<open>str(n)\<close> of a non-negative integer, as the f-string \<^verbatim>\<open>f"ORD-{n}"\<close> renders it.\<close>

definition digit_char :: "nat \<Rightarrow> char" where
  "digit_char d = ''0123456789'' ! d"

fun show_nat :: "nat \<Rightarrow> string" where
  "show_nat n = (if n < 10 then [digit_char n] else show_nat (n div 10) @ [digit_char (n mod 10)])"

declare show_nat.simps [simp del]

subsection \<open>Candles and signals\<close>

record OrderBook =
  ob_bids :: "(real \<times> real) list"
  ob_asks :: "(real \<times> real) list"

text \<open>A candle as the caller sends it (\<^verbatim>\<open>raw\<close>, a dictionary parsed from JSON).\<close>

record candle =
  c_time :: string
  c_open :: real
  c_high :: real
  c_low :: real
  c_close :: real
  c_volume :: real
  c_orderBook :: "OrderBook option"

text \<open>\<^verbatim>\<open>CandleObj(raw)\<close>, the object user code sees in its window.\<close>

record CandleObj =
  co_time :: string
  co_open :: real
  co_high :: real
  co_low :: real
  co_close :: real
  co_volume :: real
  co_bids :: "(real \<times> real) list"
  co_asks :: "(real \<times> real) list"

definition CandleObj_init :: "candle \<Rightarrow> CandleObj" where
  "CandleObj_init d =
     \<lparr>co_time = c_time d, co_open = c_open d, co_high = c_high d, co_low = c_low d,
      co_close = c_close d, co_volume = c_volume d,
      co_bids = (case c_orderBook d of None \<Rightarrow> [] | Some ob \<Rightarrow> ob_bids ob),
      co_asks = (case c_orderBook d of None \<Rightarrow> [] | Some ob \<Rightarrow> ob_asks ob)\<rparr>"

text \<open>
  A signal is the dictionary that the context appends. A key that the dictionary does
  not have is \<open>None\<close> at the outer \<open>option\<close>: \<^verbatim>\<open>cancel\<close> writes no \<^verbatim>\<open>orderType\<close> and no
  \<^verbatim>\<open>limitPrice\<close>, \<^verbatim>\<open>close_all\<close> writes no \<^verbatim>\<open>orderId\<close> either.
\<close>

record signal =
  sig_time :: string
  sig_action :: pyval
  sig_price :: "float64 option"
  sig_size :: pyval
  sig_reason :: pyval
  sig_orderId :: "pyval option"
  sig_orderType :: "string option"
  sig_limitPrice :: "float64 option option"

subsection \<open>StrategyContext\<close>

record StrategyContext =
  signals :: "signal list"
  current_candle :: "candle option"
  order_counter :: nat

definition StrategyContext_init :: StrategyContext where
  "StrategyContext_init = \<lparr>signals = [], current_candle = None, order_counter = 0\<rparr>"

fun is_str :: "pyval \<Rightarrow> bool" where
  "is_str (PStr s) = True"
| "is_str _ = False"

text \<open>
  \<^verbatim>\<open>order(self, action, size=1, price=None, reason="")\<close> returns the order id and
  leaves the context changed. The candle is a non-empty dictionary whenever it is set,
  so \<^verbatim>\<open>if self.current_candle\<close> tests that it is set.
\<close>

definition order ::
  "(string \<Rightarrow> float64 option) \<Rightarrow> StrategyContext \<Rightarrow> pyval \<Rightarrow> pyval \<Rightarrow> pyval \<Rightarrow> pyval \<Rightarrow>
   string \<times> StrategyContext" where
  "order parse ctx action sz price0 reason0 =
     (let shim = (is_str price0 \<and> reason0 = PStr []);
          reason = (if shim then price0 else reason0);
          price = (if shim then PNone else price0);
          counter = order_counter ctx + 1;
          order_id = ''ORD-'' @ show_nat counter;
          ctx1 = ctx\<lparr>order_counter := counter\<rparr>
      in case current_candle ctx of
           None \<Rightarrow> (order_id, ctx1)
         | Some cc \<Rightarrow>
             (let limit_price = (if price \<noteq> PNone then py_float parse price else None);
                  order_type = (if price \<noteq> PNone \<and> limit_price \<noteq> None then ''LIMIT'' else ''MARKET'');
                  signal_price = (case limit_price of Some f \<Rightarrow> f | None \<Rightarrow> Finite (c_close cc))
              in (order_id,
                  ctx1\<lparr>signals := signals ctx @
                     [\<lparr>sig_time = c_time cc, sig_action = action, sig_price = Some signal_price,
                       sig_size = sz, sig_reason = reason, sig_orderId = Some (PStr order_id),
                       sig_orderType = Some order_type, sig_limitPrice = Some limit_price\<rparr>]\<rparr>)))"

definition cancel :: "StrategyContext \<Rightarrow> pyval \<Rightarrow> pyval \<Rightarrow> StrategyContext" where
  "cancel ctx order_id reason =
     (case current_candle ctx of
        None \<Rightarrow> ctx
      | Some cc \<Rightarrow>
          (if py_truthy order_id
           then ctx\<lparr>signals := signals ctx @
                  [\<lparr>sig_time = c_time cc, sig_action = PStr ''CANCEL'', sig_price = None,
                    sig_size = PNum (Finite 0), sig_reason = reason, sig_orderId = Some order_id,
                    sig_orderType = None, sig_limitPrice = None\<rparr>]\<rparr>
           else ctx))"

definition close_all :: "StrategyContext \<Rightarrow> pyval \<Rightarrow> StrategyContext" where
  "close_all ctx reason =
     (case current_candle ctx of
        None \<Rightarrow> ctx
      | Some cc \<Rightarrow>
          ctx\<lparr>signals := signals ctx @
            [\<lparr>sig_time = c_time cc, sig_action = PStr ''CLOSE_ALL'',
              sig_price = Some (Finite (c_close cc)), sig_size = PNum (Finite 0),
              sig_reason = reason, sig_orderId = None, sig_orderType = None,
              sig_limitPrice = None\<rparr>]\<rparr>)"

text \<open>
  A run of calls on one context, in order: what user code does with the context
  between the moments the sandbox sets the current candle. \<open>SetCandle\<close> is the
  assignment \<^verbatim>\<open>ctx.current_candle = raw\<close> of the replay loop. The result is the list of the
  ids that the \<^verbatim>\<open>order\<close> calls returned, and the context.
\<close>

datatype ctx_call =
    Order pyval pyval pyval pyval
  | Cancel pyval pyval
  | CloseAll pyval
  | SetCandle candle

fun run_calls ::
  "(string \<Rightarrow> float64 option) \<Rightarrow> StrategyContext \<Rightarrow> ctx_call list \<Rightarrow> string list \<times> StrategyContext" where
  "run_calls parse ctx [] = ([], ctx)"
| "run_calls parse ctx (Order a s p r # cs) =
     (let (oid, ctx1) = order parse ctx a s p r;
          (ids, ctx2) = run_calls parse ctx1 cs
      in (oid # ids, ctx2))"
| "run_calls parse ctx (Cancel i r # cs) = run_calls parse (cancel ctx i r) cs"
| "run_calls parse ctx (CloseAll r # cs) = run_calls parse (close_all ctx r) cs"
| "run_calls parse ctx (SetCandle cc # cs) = run_calls parse (ctx\<lparr>current_candle := Some cc\<rparr>) cs"

definition count_orders :: "ctx_call list \<Rightarrow> nat" where
  "count_orders cs = length (filter (\<lambda>c. case c of Order a s p r \<Rightarrow> True | _ \<Rightarrow> False) cs)"

definition logged_ids :: "StrategyContext \<Rightarrow> pyval list" where
  "logged_ids ctx = concat (map (\<lambda>s. case sig_orderId s of None \<Rightarrow> [] | Some i \<Rightarrow> [i]) (signals ctx))"

section \<open>The sandbox: resolving and replaying a strategy\<close>

subsection \<open>Exceptions and user code\<close>

text \<open>
  A Python exception is its class, as far as the handlers of the wrapper tell classes
  apart (\<^verbatim>\<open>except TypeError\<close>, \<^verbatim>\<open>except Exception\<close>; \<open>BaseOnly\<close> is an exception outside
  \<^verbatim>\<open>Exception\<close>, such as \<^verbatim>\<open>SystemExit\<close>), and the text of its traceback below the header
  line.
\<close>

datatype exn_class = TypeError | OtherException | BaseOnly

datatype exn = Exn exn_class string

fun exn_kind :: "exn \<Rightarrow> exn_class" where
  "exn_kind (Exn k body) = k"

fun format_exc :: "exn \<Rightarrow> string" where
  \<comment> \<open>\<^verbatim>\<open>traceback.format_exc()\<close>; also the message of the \<^verbatim>\<open>PythonError\<close> that Pyodide throws\<close>
  "format_exc (Exn k body) = ''Traceback (most recent call last):'' @ CHR 0x0A # body"

text \<open>
  User code is arbitrary: a call into it either raises or returns, and it may change
  its own state \<open>'u\<close> (globals, instance attributes) and the context it reaches through
  \<^verbatim>\<open>order\<close>, \<^verbatim>\<open>cancel\<close>, \<^verbatim>\<open>close_all\<close> or \<^verbatim>\<open>ctx\<close>.
\<close>

type_synonym 'u tick = "'u \<Rightarrow> CandleObj list \<Rightarrow> StrategyContext \<Rightarrow> exn + ('u \<times> StrategyContext)"

type_synonym 'u hook = "'u \<Rightarrow> StrategyContext \<Rightarrow> exn + ('u \<times> StrategyContext)"

text \<open>
  A free function \<^verbatim>\<open>on_tick\<close> or \<^verbatim>\<open>strategy\<close>: the number of parameters that
  \<^verbatim>\<open>inspect.signature\<close> reports (\<open>None\<close> when it raises), and what the calls
  \<^verbatim>\<open>strategy_fn(candles)\<close> and \<^verbatim>\<open>strategy_fn(candles, ctx)\<close> do.
\<close>

record 'u py_function =
  fn_params :: "nat option"
  fn_call1 :: "'u tick"
  fn_call2 :: "'u tick"

record 'u start_function =
  st_params :: "nat option"
  st_call0 :: "'u hook"
  st_call1 :: "'u hook"

text \<open>
  A class in the namespace: its name, whether the name is among the keys the user code
  introduced or rebound, whether its module is \<^verbatim>\<open>__main__\<close>, whether the class has an
  attribute \<^verbatim>\<open>on_tick\<close>, what \<^verbatim>\<open>target_class(**params)\<close> and \<^verbatim>\<open>target_class()\<close> do, and the
  methods of the instance (\<open>None\<close>: the instance has no such attribute).
\<close>

record 'u py_class =
  cls_name :: string
  cls_effective :: bool
  cls_main :: bool
  cls_has_on_tick :: bool
  cls_new_kw :: "exn + 'u"
  cls_new_plain :: "exn + 'u"
  cls_on_start :: "'u hook option"
  cls_on_tick :: "'u tick option"

text \<open>
  The namespace after the user code has run: \<open>ns_on_tick\<close> is set when \<^verbatim>\<open>on_tick\<close> is an
  effective key and callable, likewise \<open>ns_strategy\<close> and \<open>ns_on_start\<close>; \<open>ns_classes\<close>
  are the classes among \<^verbatim>\<open>locals().items()\<close>, in order.
\<close>

record 'u namespace =
  ns_on_tick :: "'u py_function option"
  ns_strategy :: "'u py_function option"
  ns_on_start :: "'u start_function option"
  ns_classes :: "'u py_class list"
  ns_state :: 'u

subsection \<open>The lookback cap\<close>

definition js_truthy :: "float64 \<Rightarrow> bool" where
  "js_truthy v = (case v of Finite x \<Rightarrow> x \<noteq> 0 | NaN \<Rightarrow> False | PosInf \<Rightarrow> True | NegInf \<Rightarrow> True)"

text \<open>
  The worker sets the global \<^verbatim>\<open>max_lookback\<close> to \<^verbatim>\<open>Number(maxLookbackCandles)\<close> when
  \<^verbatim>\<open>maxLookbackCandles\<close> is truthy and deletes the global otherwise.
\<close>

definition max_lookback_global :: "float64 option \<Rightarrow> float64 option" where
  "max_lookback_global maxLookbackCandles =
     (case maxLookbackCandles of
        None \<Rightarrow> None
      | Some v \<Rightarrow> (if js_truthy v then Some v else None))"

definition py_int :: "float64 \<Rightarrow> int option" where
  \<comment> \<open>\<^verbatim>\<open>int(x)\<close> truncates towards zero and raises on \<^verbatim>\<open>nan\<close> and the infinities\<close>
  "py_int v = (case v of Finite x \<Rightarrow> Some (if 0 \<le> x then \<lfloor>x\<rfloor> else \<lceil>x\<rceil>) | _ \<Rightarrow> None)"

definition max_lookback_val :: "float64 option \<Rightarrow> int option" where
  "max_lookback_val g = (case g of None \<Rightarrow> None | Some v \<Rightarrow> py_int v)"

definition py_from :: "'a list \<Rightarrow> int \<Rightarrow> 'a list" where
  \<comment> \<open>\<^verbatim>\<open>xs[s:]\<close>\<close>
  "py_from xs s = (if 0 \<le> s then drop (nat s) xs else drop (nat (int (length xs) + s)) xs)"

definition truncate_window :: "int option \<Rightarrow> 'a list \<Rightarrow> 'a list" where
  "truncate_window mlv hist =
     (case mlv of
        None \<Rightarrow> hist
      | Some m \<Rightarrow> (if m \<noteq> 0 \<and> int (length hist) > m then py_from hist (- m) else hist))"

subsection \<open>Replay\<close>

text \<open>
  \<^verbatim>\<open>
  for i, raw in enumerate(raw_data):
      c = CandleObj(raw)
      historical_candles.append(c)
      if max_lookback_val and len(historical_candles) > max_lookback_val:
          historical_candles = historical_candles[-max_lookback_val:]
      ctx.current_candle = raw
      call_strategy(historical_candles)
  \<close>
\<close>

fun replay_loop ::
  "int option \<Rightarrow> 'u tick \<Rightarrow> CandleObj list \<Rightarrow> 'u \<Rightarrow> StrategyContext \<Rightarrow> candle list \<Rightarrow>
   exn + ('u \<times> StrategyContext)" where
  "replay_loop mlv f hist u ctx [] = Inr (u, ctx)"
| "replay_loop mlv f hist u ctx (raw # rest) =
     (let hist1 = truncate_window mlv (hist @ [CandleObj_init raw])
      in case f u hist1 (ctx\<lparr>current_candle := Some raw\<rparr>) of
           Inl e \<Rightarrow> Inl e
         | Inr (u1, ctx1) \<Rightarrow> replay_loop mlv f hist1 u1 ctx1 rest)"

text \<open>
  The reference for an uncapped replay, in the words of the specification: bar by bar,
  the entry point is called with the current candle set to the bar and with the window
  it is handed.
\<close>

fun run_ticks ::
  "'u tick \<Rightarrow> 'u \<Rightarrow> StrategyContext \<Rightarrow> (candle \<times> CandleObj list) list \<Rightarrow> exn + ('u \<times> StrategyContext)" where
  "run_ticks f u ctx [] = Inr (u, ctx)"
| "run_ticks f u ctx ((raw, window) # rest) =
     (case f u window (ctx\<lparr>current_candle := Some raw\<rparr>) of
        Inl e \<Rightarrow> Inl e
      | Inr (u1, ctx1) \<Rightarrow> run_ticks f u1 ctx1 rest)"

definition full_history :: "candle list \<Rightarrow> (candle \<times> CandleObj list) list" where
  "full_history raw_data =
     map (\<lambda>i. (raw_data ! i, map CandleObj_init (take (Suc i) raw_data))) [0..<length raw_data]"

subsection \<open>Entry-point resolution and the body of the backtest\<close>

definition call_strategy :: "'u py_function \<Rightarrow> 'u tick" where
  "call_strategy fn =
     (let param_count = (case fn_params fn of None \<Rightarrow> 2 | Some n \<Rightarrow> n)
      in if param_count \<le> 1 then fn_call1 fn else fn_call2 fn)"

definition run_on_start :: "'u start_function option \<Rightarrow> 'u hook" where
  "run_on_start st u ctx =
     (case st of
        None \<Rightarrow> Inr (u, ctx)
      | Some s \<Rightarrow>
          (let start_params = (case st_params s of None \<Rightarrow> 0 | Some n \<Rightarrow> n)
           in if start_params = 0 then st_call0 s u ctx
              else if start_params = 1 then st_call1 s u ctx
              else Inr (u, ctx)))"

definition builtin_names :: "string list" where
  "builtin_names = [''StrategyContext'', ''CandleObj'', ''TradingEnv'', ''DQNAgent'',
     ''MicroModel'', ''ReplayBuffer'', ''NumpyEncoder'']"

definition fallback_names :: "string list" where
  "fallback_names = [''StrategyContext'', ''CandleObj'', ''type'', ''TradingEnv'', ''DQNAgent'',
     ''MicroModel'', ''ReplayBuffer'', ''NumpyEncoder'', ''CustomTradingEnv'']"

definition resolve_class :: "'u py_class list \<Rightarrow> 'u py_class option" where
  "resolve_class classes =
     (let all_classes = filter (\<lambda>c. cls_effective c \<and> cls_name c \<notin> set builtin_names \<and> cls_main c) classes;
          strategy_classes = filter cls_has_on_tick all_classes
      in if strategy_classes \<noteq> [] then Some (last strategy_classes)
         else if all_classes \<noteq> [] then Some (last all_classes)
         else (case filter (\<lambda>c. cls_effective c \<and> cls_name c \<notin> set fallback_names) classes of
                 [] \<Rightarrow> None
               | c # _ \<Rightarrow> Some c))"

definition no_class_found :: exn where
  "no_class_found = Exn OtherException ''Exception: No strategy class found.''"

definition no_on_tick :: exn where
  "no_on_tick = Exn OtherException ''AttributeError: object has no attribute on_tick''"

definition instantiate :: "'u py_class \<Rightarrow> exn + 'u" where
  "instantiate c =
     (case cls_new_kw c of
        Inr u \<Rightarrow> Inr u
      | Inl e \<Rightarrow>
          (if exn_kind e = TypeError
           then (case cls_new_plain c of
                   Inr u \<Rightarrow> Inr u
                 | Inl e2 \<Rightarrow> (if exn_kind e2 = TypeError then Inl e else Inl e2))
           else Inl e))"

definition class_tick :: "'u py_class \<Rightarrow> 'u tick" where
  "class_tick c = (case cls_on_tick c of None \<Rightarrow> (\<lambda>u w ctx. Inl no_on_tick) | Some f \<Rightarrow> f)"

definition class_start :: "'u py_class \<Rightarrow> 'u hook" where
  "class_start c = (case cls_on_start c of None \<Rightarrow> (\<lambda>u ctx. Inr (u, ctx)) | Some h \<Rightarrow> h)"

text \<open>
  The body of the \<^verbatim>\<open>try\<close> block in backtest mode, up to the signal log that is handed to
  \<^verbatim>\<open>json.dumps\<close>.
\<close>

definition backtest :: "'u namespace \<Rightarrow> int option \<Rightarrow> candle list \<Rightarrow> exn + signal list" where
  "backtest ns mlv raw_data =
     (case (case ns_on_tick ns of Some f \<Rightarrow> Some f | None \<Rightarrow> ns_strategy ns) of
        Some strategy_fn \<Rightarrow>
          (case run_on_start (ns_on_start ns) (ns_state ns) StrategyContext_init of
             Inl e \<Rightarrow> Inl e
           | Inr (u, ctx) \<Rightarrow>
               (case replay_loop mlv (call_strategy strategy_fn) [] u ctx raw_data of
                  Inl e \<Rightarrow> Inl e
                | Inr (u1, ctx1) \<Rightarrow> Inr (signals ctx1)))
      | None \<Rightarrow>
          (case resolve_class (ns_classes ns) of
             None \<Rightarrow> Inl no_class_found
           | Some target_class \<Rightarrow>
               (case instantiate target_class of
                  Inl e \<Rightarrow> Inl e
                | Inr strategy \<Rightarrow>
                    (case class_start target_class strategy StrategyContext_init of
                       Inl e \<Rightarrow> Inl e
                     | Inr (u, ctx) \<Rightarrow>
                         (case replay_loop mlv (class_tick target_class) [] u ctx raw_data of
                            Inl e \<Rightarrow> Inl e
                          | Inr (u1, ctx1) \<Rightarrow> Inr (signals ctx1))))))"

section \<open>The wrapper script and the worker\<close>

subsection \<open>Serialising the result\<close>

text \<open>
  \<^verbatim>\<open>json.dumps(ctx.signals, cls=NumpyEncoder)\<close> raises \<^verbatim>\<open>TypeError\<close> on a value it cannot
  encode and writes \<^verbatim>\<open>NaN\<close>, \<^verbatim>\<open>Infinity\<close> and \<^verbatim>\<open>-Infinity\<close> for the floats that are not
  finite; \<^verbatim>\<open>JSON.parse\<close> in the worker throws a \<^verbatim>\<open>SyntaxError\<close> on these three words.
\<close>

fun encodable :: "pyval \<Rightarrow> bool" where
  "encodable PObj = False"
| "encodable _ = True"

definition signal_encodable :: "signal \<Rightarrow> bool" where
  "signal_encodable s \<longleftrightarrow>
     encodable (sig_action s) \<and> encodable (sig_size s) \<and> encodable (sig_reason s) \<and>
     (case sig_orderId s of None \<Rightarrow> True | Some i \<Rightarrow> encodable i)"

fun finite_val :: "pyval \<Rightarrow> bool" where
  "finite_val (PNum f) = is_finite f"
| "finite_val _ = True"

definition signal_finite :: "signal \<Rightarrow> bool" where
  "signal_finite s \<longleftrightarrow>
     finite_val (sig_action s) \<and> finite_val (sig_size s) \<and> finite_val (sig_reason s) \<and>
     (case sig_price s of None \<Rightarrow> True | Some f \<Rightarrow> is_finite f) \<and>
     (case sig_orderId s of None \<Rightarrow> True | Some i \<Rightarrow> finite_val i) \<and>
     (case sig_limitPrice s of Some (Some f) \<Rightarrow> is_finite f | _ \<Rightarrow> True)"

definition not_serializable :: exn where
  "not_serializable = Exn TypeError ''TypeError: Object of type object is not JSON serializable''"

definition json_syntax_error :: string where
  \<comment> \<open>the message of the \<^verbatim>\<open>SyntaxError\<close>; its exact words are the JavaScript engine's\<close>
  "json_syntax_error = ''Unexpected token in JSON''"

subsection \<open>The wrapper script\<close>

text \<open>
  The user code is pasted at the top level of the script, before the \<^verbatim>\<open>try\<close> block: an
  exception it raises leaves the script (\<open>Uncaught\<close>). Inside the block,
  \<^verbatim>\<open>except Exception\<close> turns an exception into the result \<^verbatim>\<open>[{"error": traceback}]\<close>.
\<close>

datatype final_json = ErrorJson string | SignalsJson "signal list"

datatype script_result = Returned final_json | Uncaught exn

definition try_block :: "'u namespace \<Rightarrow> float64 option \<Rightarrow> candle list \<Rightarrow> exn + signal list" where
  "try_block ns g raw_data =
     (case backtest ns (max_lookback_val g) raw_data of
        Inl e \<Rightarrow> Inl e
      | Inr sigs \<Rightarrow> (if list_all signal_encodable sigs then Inr sigs else Inl not_serializable))"

definition python_wrapper ::
  "exn + 'u namespace \<Rightarrow> float64 option \<Rightarrow> candle list \<Rightarrow> script_result" where
  "python_wrapper code g raw_data =
     (case code of
        Inl e \<Rightarrow> Uncaught e
      | Inr ns \<Rightarrow>
          (case try_block ns g raw_data of
             Inr sigs \<Rightarrow> Returned (SignalsJson sigs)
           | Inl e \<Rightarrow>
               (if exn_kind e = BaseOnly then Uncaught e
                else Returned (ErrorJson (format_exc e)))))"

subsection \<open>The worker: the handler of \<^verbatim>\<open>RUN_STRATEGY\<close>\<close>

text \<open>
  \<^verbatim>\<open>
  const resultString = await pyodide.runPythonAsync(fullScript);
  const result = JSON.parse(resultString);
  if (Array.isArray(result) && result.length > 0 && result[0].error) {
       throw new Error(result[0].error);
  }
  self.postMessage({ type: 'RUN_SUCCESS', id, result });
  } catch (e) {
      let msg = e.message || e.toString();
      if (msg.includes('PythonError:')) { msg = msg.split('PythonError:')[1]; }
      self.postMessage({ type: 'ERROR', id, error: msg });
  }
  \<close>
  The three errors that reach the handler (the \<^verbatim>\<open>PythonError\<close> of an exception that left the
  script, the \<^verbatim>\<open>SyntaxError\<close> of \<^verbatim>\<open>JSON.parse\<close>, the \<^verbatim>\<open>Error\<close> thrown for an error row)
  have a non-empty message, so \<^verbatim>\<open>e.message\<close> is the text that is posted.
\<close>

definition starts_with :: "string \<Rightarrow> string \<Rightarrow> bool" where
  "starts_with p s \<longleftrightarrow> take (length p) s = p"

fun text_after :: "string \<Rightarrow> string \<Rightarrow> string option" where
  "text_after sep [] = (if sep = [] then Some [] else None)"
| "text_after sep (c # cs) =
     (if starts_with sep (c # cs) then Some (drop (length sep) (c # cs)) else text_after sep cs)"

fun text_before :: "string \<Rightarrow> string \<Rightarrow> string" where
  "text_before sep [] = []"
| "text_before sep (c # cs) = (if starts_with sep (c # cs) then [] else c # text_before sep cs)"

definition strip_marker :: "string \<Rightarrow> string" where
  \<comment> \<open>\<^verbatim>\<open>if (msg.includes('PythonError:')) msg = msg.split('PythonError:')[1]\<close>\<close>
  "strip_marker msg =
     (case text_after ''PythonError:'' msg of
        None \<Rightarrow> msg
      | Some rest \<Rightarrow> text_before ''PythonError:'' rest)"

text \<open>
  What the worker posts. On success the payload is the parsed result: the signal log,
  or the row \<^verbatim>\<open>[{"error": ""}]\<close> in the case that the error text is empty and so not
  truthy.
\<close>

datatype js_result = JSignals "signal list" | JErrorRow string

datatype worker_msg = RUN_SUCCESS js_result | ERROR string

record 'u run_payload =
  p_code :: "exn + 'u namespace"
  p_candles :: "candle list"
  p_maxLookbackCandles :: "float64 option"

definition run_strategy_worker :: "bool \<Rightarrow> 'u run_payload \<Rightarrow> worker_msg" where
  "run_strategy_worker isReady payload =
     (if \<not> isReady then ERROR ''Pyodide not ready''
      else
        (case python_wrapper (p_code payload) (max_lookback_global (p_maxLookbackCandles payload))
                (p_candles payload) of
           Uncaught e \<Rightarrow> ERROR (strip_marker (format_exc e))
         | Returned (SignalsJson sigs) \<Rightarrow>
             (if list_all signal_finite sigs then RUN_SUCCESS (JSignals sigs)
              else ERROR (strip_marker json_syntax_error))
         | Returned (ErrorJson m) \<Rightarrow>
             (if m \<noteq> [] then ERROR (strip_marker m) else RUN_SUCCESS (JErrorRow m))))"

subsection \<open>The training history\<close>





subsection \<open>The outcome of a task\<close>

text \<open>
  The exception, if any, that leaves the user code or the body of the \<^verbatim>\<open>try\<close> block
  (code evaluation, entry-point resolution, instantiation, the start hook, replay,
  serialisation), and otherwise the signal log.
\<close>

definition task_outcome :: "'u run_payload \<Rightarrow> exn + signal list" where
  "task_outcome payload =
     (case p_code payload of
        Inl e \<Rightarrow> Inl e
      | Inr ns \<Rightarrow> try_block ns (max_lookback_global (p_maxLookbackCandles payload)) (p_candles payload))"




section \<open>Sample strategies\<close>


definition bar :: "string \<Rightarrow> real \<Rightarrow> candle" where
  "bar t c = \<lparr>c_time = t, c_open = c, c_high = c, c_low = c, c_close = c, c_volume = 10,
              c_orderBook = None\<rparr>"

definition three_bars :: "candle list" where
  "three_bars = [bar ''t1'' 100, bar ''t2'' 101, bar ''t3'' 102]"



text \<open>A strategy that records the length of every window it is handed.\<close>

definition len_tick :: "nat list tick" where
  "len_tick seen window ctx = Inr (seen @ [length window], ctx)"

definition function_ns :: "'u tick \<Rightarrow> 'u \<Rightarrow> 'u namespace" where
  "function_ns f u =
     \<lparr>ns_on_tick = Some \<lparr>fn_params = Some 2, fn_call1 = f, fn_call2 = f\<rparr>, ns_strategy = None,
      ns_on_start = None, ns_classes = [], ns_state = u\<rparr>"



definition task :: "'u namespace \<Rightarrow> candle list \<Rightarrow> float64 option \<Rightarrow> 'u run_payload" where
  "task ns cs cap = \<lparr>p_code = Inr ns, p_candles = cs, p_maxLookbackCandles = cap\<rparr>"



section \<open>The batch dispatcher: runPythonStrategyBatch\<close>










subsection \<open>Invariants and a measure of the batch\<close>






chapter \<open>Properties\<close>

section \<open>The moving average\<close>

lemma window_slide:
  fixes xs :: "real list"
  assumes "0 < p" "k + p < length xs"
  shows "sum_list (take p (drop (Suc k) xs)) = sum_list (take p (drop k xs)) - xs ! k + xs ! (k + p)"
proof -
  obtain q where p: "p = Suc q" using assms(1) by (cases p) auto
  let ?ys = "drop (Suc k) xs"
  have d: "drop k xs = xs ! k # ?ys"
    using assms(2) by (simp add: Cons_nth_drop_Suc)
  have q: "q < length ?ys" using assms(2) p by simp
  have t: "take (Suc q) ?ys = take q ?ys @ [?ys ! q]"
    using q by (rule take_Suc_conv_app_nth)
  have n: "?ys ! q = xs ! (k + p)" using assms(2) p by simp
  show ?thesis unfolding p d t by (simp add: n [unfolded p])
qed

lemma upto_as_upt: "i \<le> n \<Longrightarrow> [int i..int n - 1] = map int [i..<n]"
proof (induction "n - i" arbitrary: i)
  case 0
  then show ?case by simp
next
  case (Suc d)
  then have lt: "i < n" by simp
  have "[int i..int n - 1] = int i # [int i + 1..int n - 1]"
    using lt by (simp add: upto_rec1)
  also have "[int i + 1..int n - 1] = map int [Suc i..<n]"
    using Suc(1) [of "Suc i"] Suc(2) lt by (simp add: add.commute)
  finally show ?case using lt by (simp add: upt_conv_Cons)
qed

text \<open>
  The loop invariant: when the loop is about to handle index \<open>i\<close>, \<open>window_sum\<close> is the sum
  of the \<open>p\<close> values before \<open>i\<close>, and every pass appends the mean of the next window.
\<close>

lemma sma_loop_means:
  assumes "0 < p" "p \<le> i" "i \<le> length data"
    and "ws = sum_list (take p (drop (i - p) data))"
  shows "sma_loop data (int p) (map int [i..<length data]) ws ret =
           Inr (ret @ map (window_mean data p) [Suc (i - p)..<Suc (length data - p)])"
  using assms
proof (induction "length data - i" arbitrary: i ws ret)
  case 0
  then show ?case by simp
next
  case (Suc d)
  then have lt: "i < length data" by simp
  have old: "py_index data (int i - int p) = Inr (data ! (i - p))"
    using Suc.prems lt by (simp add: py_index_def nat_diff_distrib' flip: of_nat_diff)
  have new: "py_index data (int i) = Inr (data ! i)"
    using lt by (simp add: py_index_def)
  let ?ws = "ws - data ! (i - p) + data ! i"
  have slide: "?ws = sum_list (take p (drop (Suc i - p) data))"
    using window_slide [of p "i - p" data] Suc.prems lt by (simp add: Suc_diff_le)
  have wm: "?ws / real p = window_mean data p (Suc (i - p))"
    using slide Suc.prems by (simp add: window_mean_def Suc_diff_le)
  have ih: "sma_loop data (int p) (map int [Suc i..<length data]) ?ws (ret @ [?ws / real p]) =
      Inr ((ret @ [?ws / real p]) @ map (window_mean data p) [Suc (Suc i - p)..<Suc (length data - p)])"
    using Suc.hyps(1) [of "Suc i" ?ws "ret @ [?ws / real p]"] Suc.hyps(2) Suc.prems lt slide
    by simp
  have "Suc (i - p) < Suc (length data - p)" using Suc.prems lt by arith
  then have idx: "[Suc (i - p)..<Suc (length data - p)] = Suc (i - p) # [Suc (Suc i - p)..<Suc (length data - p)]"
    using Suc.prems by (simp add: upt_conv_Cons Suc_diff_le del: upt_Suc)
  have "sma_loop data (int p) (map int [i..<length data]) ws ret =
      sma_loop data (int p) (map int [Suc i..<length data]) ?ws (ret @ [?ws / real p])"
    using lt by (simp add: upt_conv_Cons [of i] old new Let_def del: upt_Suc)
  also note ih
  also have "(ret @ [?ws / real p]) @ map (window_mean data p) [Suc (Suc i - p)..<Suc (length data - p)] =
      ret @ map (window_mean data p) [Suc (i - p)..<Suc (length data - p)]"
    unfolding idx wm by simp
  finally show ?case .
qed

lemma sma_short:
  assumes "data \<noteq> []" "int (length data) < period"
  shows "sma data period = Inr (replicate (length data) (last data))"
proof -
  have "0 < length data" using assms(1) by simp
  then have "py_index data (- 1) = Inr (last data)"
    using assms(1) by (simp add: py_index_def last_conv_nth nat_diff_distrib' Suc_leI)
  then show ?thesis using assms(2) by (simp add: sma_def)
qed

lemma sma_long:
  assumes "0 < period" "period \<le> int (length data)"
  shows "sma data period =
     Inr (replicate (nat period - 1) (window_mean data (nat period) 0) @
          map (window_mean data (nat period)) [0..<Suc (length data - nat period)])"
proof -
  define p where "p = nat period"
  have p: "period = int p" "0 < p" "p \<le> length data"
    using assms by (simp_all add: p_def)
  have pre: "py_prefix data (int p) = take p data"
    by (simp add: py_prefix_def)
  have curr: "sum_list (take p data) / real p = window_mean data p 0"
    by (simp add: window_mean_def)
  have loop: "sma_loop data (int p) [int p..int (length data) - 1] (sum_list (take p data))
        (replicate (p - 1) (window_mean data p 0) @ [window_mean data p 0]) =
      Inr ((replicate (p - 1) (window_mean data p 0) @ [window_mean data p 0]) @
           map (window_mean data p) [Suc 0..<Suc (length data - p)])"
    using sma_loop_means [of p p data "sum_list (take p data)"] p
    by (simp add: upto_as_upt)
  have idx: "[0..<Suc (length data - p)] = 0 # [Suc 0..<Suc (length data - p)]"
    by (simp add: upt_conv_Cons del: upt_Suc)
  have np: "nat (int p - 1) = p - 1" by simp
  show ?thesis
    unfolding p(1) nat_int
    using p(2,3) loop
    by (simp add: sma_def pre curr Let_def np idx del: upt_Suc)
qed

text \<open>
  Claim C1, as the code has it. On a non-empty input strictly shorter than \<open>period\<close>,
  \<open>sma\<close> returns a constant series of the same length that repeats the \<^emph>\<open>last\<close> element
  of the input (\<^verbatim>\<open>[data[-1]] * len(data)\<close>), not the mean of the input. On an input of
  length at least \<open>period\<close>, with \<open>period\<close> positive, it returns \<open>period - 1\<close> copies of the
  first windowed mean followed by the means of all sliding windows of \<open>period\<close> values,
  the first window included.
\<close>

theorem sma_edge_policy:
  "(data \<noteq> [] \<and> int (length data) < period \<longrightarrow>
      sma data period = Inr (replicate (length data) (last data))) \<and>
   (0 < period \<and> period \<le> int (length data) \<longrightarrow>
      sma data period =
        Inr (replicate (nat period - 1) (window_mean data (nat period) 0) @
             map (window_mean data (nat period)) [0..<Suc (length data - nat period)]))"
  using sma_short sma_long by blast

theorem sma_edge_policy_witness:
  "([1, 2] \<noteq> ([] :: real list) \<and> int (length [1, 2 :: real]) < 3 \<and>
      sma [1, 2] 3 = Inr [2, 2]) \<and>
   ((0::int) < 2 \<and> 2 \<le> int (length [1, 2, 3, 4, 5 :: real]) \<and>
      sma [1, 2, 3, 4, 5] 2 = Inr [3 / 2, 3 / 2, 5 / 2, 7 / 2, 9 / 2])"
proof -
  have a: "sma [1, 2] 3 = Inr [2, 2]"
    using sma_edge_policy [of "[1, 2]" 3] by (simp add: numeral_2_eq_2)
  have b: "sma [1, 2, 3, 4, 5] 2 = Inr [3 / 2, 3 / 2, 5 / 2, 7 / 2, 9 / 2]"
    using sma_edge_policy [of "[1, 2, 3, 4, 5]" 2]
    by (simp add: window_mean_def upt_conv_Cons numeral_eq_Suc del: upt_Suc)
  show ?thesis using a b by simp
qed

text \<open>
  The claim as the specification words it fails: on \<open>[1, 2]\<close> with period 3 the mean of
  the whole input is \<open>3/2\<close>, and the code returns \<open>[2, 2]\<close>.
\<close>

theorem sma_short_not_mean:
  "int (length [1, 2 :: real]) < 3 \<and>
   sma [1, 2] 3 \<noteq> Inr (replicate (length [1, 2 :: real]) (sum_list [1, 2] / real (length [1, 2 :: real])))"
  by (simp add: sma_def py_index_def numeral_2_eq_2)

section \<open>The trade ledger\<close>















section \<open>The DQN agent\<close>

text \<open>
  Claim C8. Whenever the replay buffer holds strictly fewer than \<open>batch_size\<close>
  transitions, \<open>replay\<close> returns the loss 0 and the agent it was given: the weights and
  biases \<open>W1\<close>, \<open>b1\<close>, \<open>W2\<close>, \<open>b2\<close>, the cache and the buffer are unchanged, and no exception
  is raised, whatever the draw would have been.
\<close>

theorem replay_noop_below_batch_size:
  assumes "int (length (buffer (memory ag))) < batch_size ag"
  shows "replay ag minibatch = Inr (0, ag)"
  using assms by (simp add: replay_def)

theorem replay_noop_below_batch_size_witness:
  "int (length (buffer (memory (DQNAgent_init [[1, - 1], [1 / 2, 2]] [[1, 0, - 1], [0, 1, 1]]
          2 3 2 (1 / 1000) (95 / 100) 1 (995 / 1000) 32)))) < 32 \<and>
   replay (DQNAgent_init [[1, - 1], [1 / 2, 2]] [[1, 0, - 1], [0, 1, 1]]
          2 3 2 (1 / 1000) (95 / 100) 1 (995 / 1000) 32) [] =
     Inr (0, DQNAgent_init [[1, - 1], [1 / 2, 2]] [[1, 0, - 1], [0, 1, 1]]
          2 3 2 (1 / 1000) (95 / 100) 1 (995 / 1000) 32)"
  using replay_noop_below_batch_size
    [of "DQNAgent_init [[1, - 1], [1 / 2, 2]] [[1, 0, - 1], [0, 1, 1]]
          2 3 2 (1 / 1000) (95 / 100) 1 (995 / 1000) 32" "[]"]
  by (simp add: DQNAgent_init_def ReplayBuffer_init_def)

text \<open>
  Once the buffer holds \<open>batch_size\<close> transitions the step does learn: with one stored
  transition and batch size 1 the loss is not 0 and \<open>W2\<close> moves.
\<close>

lemma replay_learns_at_batch_size:
  "replay
     ((DQNAgent_init [[1, - 1], [1 / 2, 2]] [[1, 0, - 1], [0, 1, 1]] 2 3 2 (1 / 10) (95 / 100) 1 (1 / 2) 1)
        \<lparr>memory := \<lparr>capacity = 5000,
                     buffer = [\<lparr>tr_state = [1, 2], tr_action = 1, tr_reward = 1 / 2,
                                tr_next_state = [2, 1], tr_done = False\<rparr>],
                     position = 1\<rparr>\<rparr>)
     [\<lparr>tr_state = [1, 2], tr_action = 1, tr_reward = 1 / 2, tr_next_state = [2, 1], tr_done = False\<rparr>] =
   Inr (1 / 192,
     (DQNAgent_init [[1, - 1], [1 / 2, 2]] [[1, 0, - 1], [0, 1, 1]] 2 3 2 (1 / 10) (95 / 100) 1 (1 / 2) 1)
        \<lparr>memory := \<lparr>capacity = 5000,
                     buffer = [\<lparr>tr_state = [1, 2], tr_action = 1, tr_reward = 1 / 2,
                                tr_next_state = [2, 1], tr_done = False\<rparr>],
                     position = 1\<rparr>,
         model := \<lparr>W1 = [[1, - 1], [1 / 2, 2]], b1 = [[0, 0]],
                    W2 = [[1, - (1 / 32), - 1], [0, 1, 1]], b2 = [[0, - (1 / 80), 0]],
                    lr = 1 / 10,
                    cache = Some \<lparr>cache_X = [[2, 1]], cache_z1 = [[5 / 2, 0]],
                                  cache_a1 = [[5 / 2, 0]], cache_z2 = [[5 / 2, 0, - (5 / 2)]]\<rparr>\<rparr>\<rparr>)"
  by (simp add: replay_def DQNAgent_init_def MicroModel_init_def shapes_fit_def has_shape_def
        ncols_def forward_def backward_def np_dot_def mat_T_def add_bias_def relu_def col_sums_def
        np_clip_def sgd_step_def bellman_targets_def row_max_def Let_def upt_conv_Cons
        numeral_eq_Suc)

text \<open>
  Claim C4: the floor of the exploration rate. \<open>decay_epsilon\<close> multiplies whenever the
  current value is above \<open>epsilon_min\<close> and does not clamp the product, so the last
  multiplication can land below the floor. With the initial value 1 and the decay factor
  \<open>1/2\<close> the seventh decay gives \<open>1/128\<close>, strictly below \<open>epsilon_min = 0.01\<close>.
\<close>

theorem decay_epsilon_below_floor:
  "epsilon_min (DQNAgent_init w1 w2 3 3 24 (1 / 1000) (95 / 100) 1 (1 / 2) 32) = 1 / 100 \<and>
   epsilon_min (DQNAgent_init w1 w2 3 3 24 (1 / 1000) (95 / 100) 1 (1 / 2) 32)
     < epsilon (DQNAgent_init w1 w2 3 3 24 (1 / 1000) (95 / 100) 1 (1 / 2) 32) \<and>
   epsilon ((decay_epsilon ^^ 7) (DQNAgent_init w1 w2 3 3 24 (1 / 1000) (95 / 100) 1 (1 / 2) 32)) = 1 / 128 \<and>
   epsilon ((decay_epsilon ^^ 7) (DQNAgent_init w1 w2 3 3 24 (1 / 1000) (95 / 100) 1 (1 / 2) 32))
     < epsilon_min ((decay_epsilon ^^ 7) (DQNAgent_init w1 w2 3 3 24 (1 / 1000) (95 / 100) 1 (1 / 2) 32))"
  by (simp add: DQNAgent_init_def decay_epsilon_def numeral_eq_Suc)

text \<open>
  What the guard does give: the value never falls below \<open>epsilon_min * epsilon_decay\<close>,
  one decay step under the floor.
\<close>

lemma decay_epsilon_fields:
  "epsilon_min (decay_epsilon ag) = epsilon_min ag \<and> epsilon_decay (decay_epsilon ag) = epsilon_decay ag"
  by (simp add: decay_epsilon_def)

lemma decay_epsilon_step_bound:
  assumes "0 \<le> epsilon_decay ag" "epsilon_decay ag \<le> 1" "0 \<le> epsilon_min ag"
    and "epsilon_min ag * epsilon_decay ag \<le> epsilon ag"
  shows "epsilon_min ag * epsilon_decay ag \<le> epsilon (decay_epsilon ag)"
proof (cases "epsilon ag > epsilon_min ag")
  case True
  then have "epsilon_min ag * epsilon_decay ag \<le> epsilon ag * epsilon_decay ag"
    using assms(1) by (simp add: mult_right_mono)
  then show ?thesis using True by (simp add: decay_epsilon_def)
next
  case False
  then show ?thesis using assms(4) by (simp add: decay_epsilon_def)
qed

lemma decay_epsilon_iter_bound:
  assumes "0 \<le> epsilon_decay ag" "epsilon_decay ag \<le> 1" "0 \<le> epsilon_min ag"
    and "epsilon_min ag * epsilon_decay ag \<le> epsilon ag"
  shows "epsilon_min ((decay_epsilon ^^ n) ag) = epsilon_min ag \<and>
         epsilon_decay ((decay_epsilon ^^ n) ag) = epsilon_decay ag \<and>
         epsilon_min ag * epsilon_decay ag \<le> epsilon ((decay_epsilon ^^ n) ag)"
proof (induction n)
  case 0
  then show ?case using assms(4) by simp
next
  case (Suc n)
  then show ?case
    using decay_epsilon_step_bound [of "(decay_epsilon ^^ n) ag"] assms(1-3)
    by (simp add: decay_epsilon_fields)
qed

section \<open>Order ids\<close>

text \<open>The decimal rendering of the order counter is injective.\<close>

lemma digit_char_inj: "a < 10 \<Longrightarrow> b < 10 \<Longrightarrow> digit_char a = digit_char b \<Longrightarrow> a = b"
proof -
  assume a: "a < 10" and b: "b < 10" and e: "digit_char a = digit_char b"
  have d: "distinct ''0123456789''" by simp
  have "length ''0123456789'' = 10" by simp
  then show "a = b"
    using a b e d unfolding digit_char_def
    by (metis nth_eq_iff_index_eq)
qed

lemma show_nat_small: "n < 10 \<Longrightarrow> show_nat n = [digit_char n]"
  by (simp add: show_nat.simps)

lemma show_nat_large: "\<not> n < 10 \<Longrightarrow> show_nat n = show_nat (n div 10) @ [digit_char (n mod 10)]"
  by (subst show_nat.simps) simp

lemma show_nat_nonempty: "show_nat n \<noteq> []"
  by (cases "n < 10") (simp_all add: show_nat_small show_nat_large)

lemma show_nat_inj: "show_nat n = show_nat m \<Longrightarrow> n = m"
proof (induction n arbitrary: m rule: less_induct)
  case (less n)
  show ?case
  proof (cases "n < 10")
    case n: True
    show ?thesis
    proof (cases "m < 10")
      case True
      then show ?thesis using less.prems n by (simp add: show_nat_small digit_char_inj)
    next
      case False
      then show ?thesis
        using less.prems n show_nat_nonempty [of "m div 10"]
        by (simp add: show_nat_small show_nat_large)
    qed
  next
    case n: False
    show ?thesis
    proof (cases "m < 10")
      case True
      then show ?thesis
        using less.prems n show_nat_nonempty [of "n div 10"]
        by (simp add: show_nat_small show_nat_large)
    next
      case False
      then have e: "show_nat (n div 10) = show_nat (m div 10)" "digit_char (n mod 10) = digit_char (m mod 10)"
        using less.prems n by (simp_all add: show_nat_large)
      have "n div 10 < n" using n by simp
      then have q: "n div 10 = m div 10" using less.IH e(1) by blast
      have r: "n mod 10 = m mod 10" using e(2) by (simp add: digit_char_inj)
      show ?thesis using q r by (metis div_mult_mod_eq)
    qed
  qed
qed

lemma order_id: "fst (order parse ctx a s p r) = ''ORD-'' @ show_nat (Suc (order_counter ctx))"
  by (simp add: order_def Let_def split: option.split)

lemma order_counter_order: "order_counter (snd (order parse ctx a s p r)) = Suc (order_counter ctx)"
  by (simp add: order_def Let_def split: option.split)

lemma order_no_candle: "current_candle ctx = None \<Longrightarrow> signals (snd (order parse ctx a s p r)) = signals ctx"
  by (simp add: order_def Let_def)

lemma order_counter_cancel: "order_counter (cancel ctx i r) = order_counter ctx"
  by (simp add: cancel_def split: option.split)

lemma order_counter_close_all: "order_counter (close_all ctx r) = order_counter ctx"
  by (simp add: close_all_def split: option.split)

lemma run_calls_ids:
  "fst (run_calls parse ctx cs) =
     map (\<lambda>k. ''ORD-'' @ show_nat (Suc (order_counter ctx + k))) [0..<count_orders cs]"
proof (induction cs arbitrary: ctx)
  case Nil
  then show ?case by (simp add: count_orders_def)
next
  case (Cons c cs)
  show ?case
  proof (cases c)
    case (Order a s p r)
    have cnt: "count_orders (c # cs) = Suc (count_orders cs)"
      using Order by (simp add: count_orders_def)
    have "fst (run_calls parse ctx (c # cs)) =
        fst (order parse ctx a s p r) # fst (run_calls parse (snd (order parse ctx a s p r)) cs)"
      using Order by (simp add: case_prod_beta Let_def)
    also have "\<dots> = (''ORD-'' @ show_nat (Suc (order_counter ctx + 0))) #
        map (\<lambda>k. ''ORD-'' @ show_nat (Suc (order_counter ctx + Suc k))) [0..<count_orders cs]"
      using Cons.IH [of "snd (order parse ctx a s p r)"]
      by (simp add: order_id order_counter_order)
    also have "\<dots> = map (\<lambda>k. ''ORD-'' @ show_nat (Suc (order_counter ctx + k))) [0..<Suc (count_orders cs)]"
      by (simp only: map_upt_Suc)
    finally show ?thesis unfolding cnt .
  next
    case (Cancel i r)
    then show ?thesis using Cons.IH [of "cancel ctx i r"]
      by (simp add: count_orders_def order_counter_cancel)
  next
    case (CloseAll r)
    then show ?thesis using Cons.IH [of "close_all ctx r"]
      by (simp add: count_orders_def order_counter_close_all)
  next
    case (SetCandle cc)
    then show ?thesis using Cons.IH [of "ctx\<lparr>current_candle := Some cc\<rparr>"]
      by (simp add: count_orders_def)
  qed
qed

lemma run_calls_distinct: "distinct (fst (run_calls parse ctx cs))"
proof -
  have "inj_on (\<lambda>k. ''ORD-'' @ show_nat (Suc (order_counter ctx + k))) (set [0..<count_orders cs])"
    by (rule inj_onI) (auto dest: show_nat_inj)
  then show ?thesis
    unfolding run_calls_ids by (simp add: distinct_map)
qed

text \<open>
  Claim C9. Every call of \<open>order\<close> increments the order counter and returns the id
  \<open>ORD-n\<close> for the new counter value \<open>n\<close>, whether or not a current candle is set; with
  no current candle the signal log is left as it was, so an id that was returned need
  not appear in the log. Over any run of calls on a context, the ids returned are
  \<open>ORD-(c+1)\<close>, \<open>ORD-(c+2)\<close>, \<open>\<dots>\<close> for the starting counter \<open>c\<close>: strictly increasing and
  pairwise different.
\<close>

theorem order_ids_fresh:
  "fst (order parse ctx a s p r) = ''ORD-'' @ show_nat (Suc (order_counter ctx)) \<and>
   order_counter (snd (order parse ctx a s p r)) = Suc (order_counter ctx) \<and>
   (current_candle ctx = None \<longrightarrow> signals (snd (order parse ctx a s p r)) = signals ctx) \<and>
   fst (run_calls parse ctx cs) =
     map (\<lambda>k. ''ORD-'' @ show_nat (Suc (order_counter ctx + k))) [0..<count_orders cs] \<and>
   distinct (fst (run_calls parse ctx cs))"
proof (intro conjI impI)
  show "fst (order parse ctx a s p r) = ''ORD-'' @ show_nat (Suc (order_counter ctx))"
    by (rule order_id)
  show "order_counter (snd (order parse ctx a s p r)) = Suc (order_counter ctx)"
    by (rule order_counter_order)
  show "signals (snd (order parse ctx a s p r)) = signals ctx" if "current_candle ctx = None"
    using that by (rule order_no_candle)
  show "fst (run_calls parse ctx cs) =
     map (\<lambda>k. ''ORD-'' @ show_nat (Suc (order_counter ctx + k))) [0..<count_orders cs]"
    by (rule run_calls_ids)
  show "distinct (fst (run_calls parse ctx cs))"
    by (rule run_calls_distinct)
qed

text \<open>
  An order placed before the first candle (in a start hook) gets \<open>ORD-1\<close> and leaves the
  log empty; the next order, on a candle, is logged as \<open>ORD-2\<close>, and \<open>ORD-1\<close> never
  appears in the log.
\<close>

theorem order_ids_fresh_witness:
  "current_candle StrategyContext_init = None \<and>
   fst (order (\<lambda>s. None) StrategyContext_init (PStr ''BUY'') (PNum (Finite 1)) PNone (PStr [])) = ''ORD-1'' \<and>
   signals (snd (order (\<lambda>s. None) StrategyContext_init (PStr ''BUY'') (PNum (Finite 1)) PNone (PStr []))) = [] \<and>
   fst (run_calls (\<lambda>s. None) StrategyContext_init
      [Order (PStr ''BUY'') (PNum (Finite 1)) PNone (PStr []),
       SetCandle \<lparr>c_time = ''t1'', c_open = 1, c_high = 2, c_low = 1, c_close = 3 / 2,
                  c_volume = 10, c_orderBook = None\<rparr>,
       Order (PStr ''SELL'') (PNum (Finite 1)) PNone (PStr [])]) = [''ORD-1'', ''ORD-2''] \<and>
   logged_ids (snd (run_calls (\<lambda>s. None) StrategyContext_init
      [Order (PStr ''BUY'') (PNum (Finite 1)) PNone (PStr []),
       SetCandle \<lparr>c_time = ''t1'', c_open = 1, c_high = 2, c_low = 1, c_close = 3 / 2,
                  c_volume = 10, c_orderBook = None\<rparr>,
       Order (PStr ''SELL'') (PNum (Finite 1)) PNone (PStr [])])) = [PStr ''ORD-2'']"
proof -
  let ?o = "order (\<lambda>s. None) StrategyContext_init (PStr ''BUY'') (PNum (Finite 1)) PNone (PStr [])"
  let ?cs = "[Order (PStr ''BUY'') (PNum (Finite 1)) PNone (PStr []),
       SetCandle \<lparr>c_time = ''t1'', c_open = 1, c_high = 2, c_low = 1, c_close = 3 / 2,
                  c_volume = 10, c_orderBook = None\<rparr>,
       Order (PStr ''SELL'') (PNum (Finite 1)) PNone (PStr [])]"
  note inst = order_ids_fresh [of "\<lambda>s. None" StrategyContext_init "PStr ''BUY''" "PNum (Finite 1)" PNone "PStr []" ?cs]
  have n: "current_candle StrategyContext_init = None" "order_counter StrategyContext_init = 0"
    "signals StrategyContext_init = []"
    by (simp_all add: StrategyContext_init_def)
  have s1: "show_nat (Suc 0) = ''1''" "show_nat (Suc (Suc 0)) = ''2''"
    by (simp_all add: show_nat.simps digit_char_def)
  have a: "fst ?o = ''ORD-1''" using inst n s1 by simp
  have b: "signals (snd ?o) = []" using inst n by simp
  have c: "fst (run_calls (\<lambda>s. None) StrategyContext_init ?cs) = [''ORD-1'', ''ORD-2'']"
    using inst n s1 by (simp add: count_orders_def upt_rec)
  have d: "logged_ids (snd (run_calls (\<lambda>s. None) StrategyContext_init ?cs)) = [PStr ''ORD-2'']"
    by (simp add: logged_ids_def order_def StrategyContext_init_def Let_def s1)
  show ?thesis using n(1) a b c d by simp
qed

section \<open>The lookback cap\<close>

text \<open>
  Without a cap the loop hands the entry point, at bar \<open>i\<close>, the window it started with
  followed by all candles up to \<open>i\<close>.
\<close>

lemma replay_loop_uncapped:
  "replay_loop None f hist u ctx raw_data =
     run_ticks f u ctx
       (map (\<lambda>i. (raw_data ! i, hist @ map CandleObj_init (take (Suc i) raw_data)))
          [0..<length raw_data])"
proof (induction raw_data arbitrary: hist u ctx)
  case Nil
  then show ?case by simp
next
  case (Cons raw rest)
  have idx: "map (\<lambda>i. ((raw # rest) ! i, hist @ map CandleObj_init (take (Suc i) (raw # rest))))
        [0..<length (raw # rest)] =
      (raw, hist @ [CandleObj_init raw]) #
      map (\<lambda>i. (rest ! i, (hist @ [CandleObj_init raw]) @ map CandleObj_init (take (Suc i) rest)))
        [0..<length rest]"
    by (simp add: map_upt_Suc del: upt_Suc)
  show ?case
    unfolding idx
    using Cons.IH [of "hist @ [CandleObj_init raw]"]
    by (simp add: truncate_window_def split: sum.split)
qed

lemma cap_disabled:
  assumes "v = Finite 0 \<or> py_int v = None"
  shows "max_lookback_val (max_lookback_global (Some v)) = None"
  using assms
  by (cases v) (auto simp: max_lookback_val_def max_lookback_global_def js_truthy_def py_int_def)

text \<open>
  Claim C10. If the request carries \<^verbatim>\<open>maxLookbackCandles\<close> equal to 0, or a number on
  which \<^verbatim>\<open>int()\<close> raises (an infinity, \<^verbatim>\<open>NaN\<close>), no cap is in force: the replay is the
  uncapped one, in which the entry point receives at every bar all candles processed so
  far.
\<close>

theorem lookback_cap_disabled:
  assumes "v = Finite 0 \<or> py_int v = None"
  shows "replay_loop (max_lookback_val (max_lookback_global (Some v))) f [] u ctx raw_data =
           run_ticks f u ctx (full_history raw_data)"
  using replay_loop_uncapped [of f "[]" u ctx raw_data] cap_disabled [OF assms]
  by (simp add: full_history_def)

theorem lookback_cap_disabled_witness:
  "replay_loop (max_lookback_val (max_lookback_global (Some (Finite 0)))) len_tick [] []
      StrategyContext_init three_bars =
     Inr ([1, 2, 3], StrategyContext_init\<lparr>current_candle := Some (bar ''t3'' 102)\<rparr>) \<and>
   py_int PosInf = None \<and>
   replay_loop (max_lookback_val (max_lookback_global (Some PosInf))) len_tick [] []
      StrategyContext_init three_bars =
     Inr ([1, 2, 3], StrategyContext_init\<lparr>current_candle := Some (bar ''t3'' 102)\<rparr>)"
proof -
  have full: "run_ticks len_tick [] StrategyContext_init (full_history three_bars) =
      Inr ([1, 2, 3], StrategyContext_init\<lparr>current_candle := Some (bar ''t3'' 102)\<rparr>)"
    by code_simp
  have inf: "py_int PosInf = None" by (simp add: py_int_def)
  have a: "replay_loop (max_lookback_val (max_lookback_global (Some (Finite 0)))) len_tick [] []
      StrategyContext_init three_bars = run_ticks len_tick [] StrategyContext_init (full_history three_bars)"
    by (rule lookback_cap_disabled) simp
  have b: "replay_loop (max_lookback_val (max_lookback_global (Some PosInf))) len_tick [] []
      StrategyContext_init three_bars = run_ticks len_tick [] StrategyContext_init (full_history three_bars)"
    by (rule lookback_cap_disabled) (simp add: inf)
  show ?thesis
    unfolding a b full using inf by simp
qed

text \<open>A cap of 2, for contrast: the third window holds two candles.\<close>

lemma lookback_cap_two:
  "replay_loop (max_lookback_val (max_lookback_global (Some (Finite 2)))) len_tick [] []
      StrategyContext_init three_bars =
     Inr ([1, 2, 2], StrategyContext_init\<lparr>current_candle := Some (bar ''t3'' 102)\<rparr>)"
  by code_simp

section \<open>Exceptions in a strategy task\<close>






text \<open>
  The cut at the marker: a traceback whose last line is \<^verbatim>\<open>Exception: PythonError: boom\<close>
  reaches the caller as \<^verbatim>\<open> boom\<close>.
\<close>

lemma marker_cuts_traceback:
  "run_strategy_worker True
     (task (function_ns (\<lambda>u w ctx. Inl (Exn OtherException ''Exception: PythonError: boom'')) ())
        [bar ''t1'' 100] None) = ERROR '' boom''"
  by code_simp

lemma no_entry_point:
  assumes "ns_on_tick ns = None" "ns_strategy ns = None" "resolve_class (ns_classes ns) = None"
  shows "backtest ns mlv raw_data = Inl no_class_found"
  using assms by (simp add: backtest_def)

text \<open>The stages of the body hand an exception on: it becomes the outcome of the task.\<close>

lemma evaluation_raises:
  "p_code payload = Inl e \<Longrightarrow> task_outcome payload = Inl e"
  by (simp add: task_outcome_def)

lemma body_raises:
  assumes "p_code payload = Inr ns"
    and "backtest ns (max_lookback_val (max_lookback_global (p_maxLookbackCandles payload)))
           (p_candles payload) = Inl e"
  shows "task_outcome payload = Inl e"
  using assms by (simp add: task_outcome_def try_block_def)

lemma instantiation_raises:
  assumes "ns_on_tick ns = None" "ns_strategy ns = None" "resolve_class (ns_classes ns) = Some c"
    and "cls_new_kw c = Inl e" "exn_kind e \<noteq> TypeError"
  shows "backtest ns mlv raw_data = Inl e"
  using assms by (simp add: backtest_def instantiate_def)

lemma start_hook_raises:
  assumes "ns_on_tick ns = Some fn"
    and "run_on_start (ns_on_start ns) (ns_state ns) StrategyContext_init = Inl e"
  shows "backtest ns mlv raw_data = Inl e"
  using assms by (simp add: backtest_def)

lemma replay_raises:
  assumes "ns_on_tick ns = Some fn"
    and "run_on_start (ns_on_start ns) (ns_state ns) StrategyContext_init = Inr (u, ctx)"
    and "replay_loop mlv (call_strategy fn) [] u ctx raw_data = Inl e"
  shows "backtest ns mlv raw_data = Inl e"
  using assms by (simp add: backtest_def)

lemma replay_loop_stops_at_exception:
  assumes "replay_loop mlv f hist u ctx pre = Inl e"
  shows "replay_loop mlv f hist u ctx (pre @ post) = Inl e"
  using assms
  by (induction pre arbitrary: hist u ctx) (auto simp: Let_def split: sum.splits)

section \<open>Values that are not finite\<close>





section \<open>The batch dispatcher\<close>



























end
